theory Spec2Isabelle
  imports Complex_Main
begin

section \<open>JavaScript values and strings\<close>

text \<open>
  A value produced by \<^verbatim>\<open>JSON.parse\<close>. An object is the list of its own properties in
  the order \<^verbatim>\<open>Object.entries\<close> enumerates them; \<^verbatim>\<open>JSON.parse\<close> never yields the same
  key twice. Strings are lists of 8-bit characters (Latin-1 code units).
\<close>

datatype json =
    JNull
  | JBool bool
  | JNum real
  | JStr string
  | JArr "json list"
  | JObj "(string \<times> json) list"

text \<open>What a \<^verbatim>\<open>catch\<close> clause of the server receives.\<close>

datatype jsexn = TypeError | SyntaxError | Rejected

text \<open>Truthiness, as \<^verbatim>\<open>if (v)\<close>, \<^verbatim>\<open>v && w\<close> and \<^verbatim>\<open>v || w\<close> test it.\<close>

fun truthy :: "json \<Rightarrow> bool" where
  "truthy JNull = False"
| "truthy (JBool b) = b"
| "truthy (JNum n) = (n \<noteq> 0)"
| "truthy (JStr s) = (s \<noteq> [])"
| "truthy (JArr xs) = True"
| "truthy (JObj kvs) = True"

text \<open>
  \<^verbatim>\<open>v.name\<close> for a property name that no built-in prototype defines (\<^verbatim>\<open>text\<close>,
  \<^verbatim>\<open>segments\<close>, \<^verbatim>\<open>speakers\<close>, \<^verbatim>\<open>keyPoints\<close>, \<^verbatim>\<open>topics\<close>, \<^verbatim>\<open>actionItems\<close>):
  reading it from \<^verbatim>\<open>null\<close> throws, an object gives its own property, every other
  value gives \<^verbatim>\<open>undefined\<close> (\<open>None\<close>).
\<close>

fun getProp :: "json \<Rightarrow> string \<Rightarrow> jsexn + json option" where
  "getProp JNull name = Inl TypeError"
| "getProp (JObj kvs) name = Inr (map_of kvs name)"
| "getProp v name = Inr None"

definition isSpace :: "char \<Rightarrow> bool" where
  \<comment> \<open>the class \<^verbatim>\<open>\s\<close>, which is also what \<^verbatim>\<open>trim\<close> strips\<close>
  "isSpace c \<longleftrightarrow>
     c = CHR 0x09 \<or> c = CHR 0x0A \<or> c = CHR 0x0B \<or> c = CHR 0x0C \<or> c = CHR 0x0D \<or>
     c = CHR 0x20 \<or> c = CHR 0xA0"

definition isSentenceEnd :: "char \<Rightarrow> bool" where
  \<comment> \<open>the characters of \<^verbatim>\<open>\.|\?|\!\<close> and of \<^verbatim>\<open>[.!?]\<close>\<close>
  "isSentenceEnd c \<longleftrightarrow> c = CHR ''.'' \<or> c = CHR ''?'' \<or> c = CHR ''!''"

definition isUpperAZ :: "char \<Rightarrow> bool" where
  \<comment> \<open>the class \<^verbatim>\<open>[A-Z]\<close>\<close>
  "isUpperAZ c \<longleftrightarrow> 65 \<le> (of_char c :: nat) \<and> (of_char c :: nat) \<le> 90"

definition trim :: "string \<Rightarrow> string" where
  "trim s = rev (dropWhile isSpace (rev (dropWhile isSpace s)))"

definition toLowerCase :: "string \<Rightarrow> string" where
  "toLowerCase s =
     map (\<lambda>c. let n = (of_char c :: nat)
               in if (65 \<le> n \<and> n \<le> 90) \<or> (192 \<le> n \<and> n \<le> 222 \<and> n \<noteq> 215)
                  then char_of (n + 32) else c) s"

fun includesStr :: "string \<Rightarrow> string \<Rightarrow> bool" where
  "includesStr [] needle = (needle = [])"
| "includesStr (c # cs) needle = (take (length needle) (c # cs) = needle \<or> includesStr cs needle)"

definition endsWith :: "string \<Rightarrow> string \<Rightarrow> bool" where
  "endsWith s suffix \<longleftrightarrow>
     length suffix \<le> length s \<and> drop (length s - length suffix) s = suffix"

fun join :: "string \<Rightarrow> string list \<Rightarrow> string" where
  "join sep [] = []"
| "join sep [x] = x"
| "join sep (x # y # ys) = x @ sep @ join sep (y # ys)"

definition substring :: "string \<Rightarrow> nat \<Rightarrow> nat \<Rightarrow> string" where
  \<comment> \<open>\<^verbatim>\<open>s.substring(a, b)\<close>: both indices are clamped to the length and swapped if needed\<close>
  "substring s a b =
     (let a' = min a (length s); b' = min b (length s)
      in take (max a' b' - min a' b') (drop (min a' b') s))"

definition substringFrom :: "string \<Rightarrow> nat \<Rightarrow> string" where
  \<comment> \<open>\<^verbatim>\<open>s.substring(a)\<close>\<close>
  "substringFrom s a = drop a s"

fun findAt :: "string \<Rightarrow> string \<Rightarrow> nat \<Rightarrow> nat option" where
  "findAt needle [] k = (if needle = [] then Some k else None)"
| "findAt needle (c # cs) k =
     (if take (length needle) (c # cs) = needle then Some k else findAt needle cs (Suc k))"

definition indexOf :: "string \<Rightarrow> string \<Rightarrow> nat \<Rightarrow> nat option" where
  \<comment> \<open>\<^verbatim>\<open>s.indexOf(needle, from)\<close>, with \<open>None\<close> for \<^verbatim>\<open>-1\<close>\<close>
  "indexOf s needle from = (let p = min from (length s) in findAt needle (drop p s) p)"

section \<open>Speaker diarization (server/diarization.ts)\<close>

text \<open>
  \<^verbatim>\<open>s.split(/(?<=\.|\?|\!)\s+/g)\<close>: the string is cut at every run of white space that
  directly follows a full stop, question mark or exclamation mark; the run is dropped.
  The first argument says whether the character just read is such a mark, the second is
  the piece being read, reversed.
\<close>

function splitAfterMark :: "bool \<Rightarrow> string \<Rightarrow> string \<Rightarrow> string list" where
  "splitAfterMark mark piece [] = [rev piece]"
| "splitAfterMark mark piece (c # cs) =
     (if mark \<and> isSpace c
      then rev piece # splitAfterMark False [] (dropWhile isSpace cs)
      else splitAfterMark (isSentenceEnd c) (c # piece) cs)"
  by pat_completeness auto
termination
  by (relation "measure (\<lambda>(mark, piece, s). length s)")
     (auto simp: le_imp_less_Suc length_dropWhile_le)

definition splitSentences :: "string \<Rightarrow> string list" where
  \<comment> \<open>\<^verbatim>\<open>.split(...).filter((s) => s.trim().length > 0)\<close>\<close>
  "splitSentences s = filter (\<lambda>p. length (trim p) > 0) (splitAfterMark False [] s)"

definition mkSegment :: "json \<Rightarrow> json \<Rightarrow> json" where
  \<comment> \<open>the object literal \<^verbatim>\<open>{ speaker: sp, text: tx }\<close>\<close>
  "mkSegment sp tx = JObj [(''speaker'', sp), (''text'', tx)]"

definition segment :: "string \<Rightarrow> string \<Rightarrow> json" where
  "segment sp tx = mkSegment (JStr sp) (JStr tx)"

text \<open>Lines 84-95: a reply that is an array of one element is cut in two halves.\<close>

definition splitSingleElement :: "json \<Rightarrow> jsexn + json list option" where
  "splitSingleElement e =
     (case getProp e ''text'' of
        Inl x \<Rightarrow> Inl x
      | Inr None \<Rightarrow> Inl TypeError
      | Inr (Some (JStr t)) \<Rightarrow>
          (let segments = splitSentences t
           in if length segments > 1
              then Inr (Some
                [segment ''Speaker 1'' (join '' '' (take ((length segments + 1) div 2) segments)),
                 segment ''Speaker 2'' (join '' '' (drop ((length segments + 1) div 2) segments))])
              else Inr None)
      | Inr (Some v) \<Rightarrow> Inl TypeError)"

text \<open>
  Lines 213-223: the turn-taking indicators, read from the previous and the current
  sentence.
\<close>

definition speakerChange :: "string \<Rightarrow> string \<Rightarrow> bool" where
  "speakerChange prevSentence currSentence \<longleftrightarrow>
     endsWith prevSentence ''?'' \<or>
     includesStr prevSentence ''thank you'' \<or>
     includesStr prevSentence ''could you'' \<or>
     includesStr prevSentence ''what do you think'' \<or>
     includesStr currSentence ''yeah'' \<or>
     includesStr currSentence ''okay'' \<or>
     includesStr currSentence ''so,'' \<or>
     includesStr currSentence ''well,''"

definition otherSpeaker :: "string \<Rightarrow> string" where
  "otherSpeaker currentSpeaker =
     (if currentSpeaker = ''Speaker 1'' then ''Speaker 2'' else ''Speaker 1'')"

text \<open>
  Lines 208-236: the loop over \<^verbatim>\<open>sentences[1..]\<close>. The state is \<^verbatim>\<open>segments\<close>,
  \<^verbatim>\<open>currentSpeaker\<close> and \<^verbatim>\<open>currentText\<close>; \<open>prevSentence\<close> is \<^verbatim>\<open>sentences[i-1]\<close>.
\<close>

fun alternate :: "json list \<Rightarrow> string \<Rightarrow> string \<Rightarrow> string \<Rightarrow> string list \<Rightarrow> json list" where
  "alternate segments currentSpeaker currentText prevSentence [] =
     segments @ [segment currentSpeaker currentText]"
| "alternate segments currentSpeaker currentText prevSentence (currSentence # rest) =
     (if speakerChange prevSentence currSentence
      then alternate (segments @ [segment currentSpeaker currentText])
             (otherSpeaker currentSpeaker) currSentence currSentence rest
      else alternate segments currentSpeaker (currentText @ '' '' @ currSentence)
             currSentence rest)"

text \<open>Lines 194-237: the handler of the inner \<^verbatim>\<open>catch (parseError)\<close>.\<close>

definition sentenceFallback :: "string \<Rightarrow> json list" where
  "sentenceFallback transcriptText =
     (let sentences = splitSentences transcriptText
      in if length sentences \<le> 2 then [segment ''Speaker 1'' transcriptText]
         else (case sentences of
                 [] \<Rightarrow> [segment ''Speaker 1'' transcriptText]
               | s0 # rest \<Rightarrow> alternate [] ''Speaker 1'' s0 s0 rest))"

text \<open>
  \<^verbatim>\<open>ToPrimitive\<close> of a parsed value throws exactly when the value is an object with
  an own \<^verbatim>\<open>toString\<close> property (which is never callable), or an array that holds such
  a value: \<^verbatim>\<open>Array.prototype.join\<close> converts every element to a string.
\<close>

fun toPrimitiveThrows :: "json \<Rightarrow> bool" where
  "toPrimitiveThrows (JObj kvs) = (''toString'' \<in> fst ` set kvs)"
| "toPrimitiveThrows (JArr xs) = (\<exists>x \<in> set xs. toPrimitiveThrows x)"
| "toPrimitiveThrows v = False"

text \<open>
  Lines 134-147: the positions where \<^verbatim>\<open>/(?<=[.!?])\s+(?=[A-Z])/g\<close> matches, found by
  repeated \<^verbatim>\<open>exec\<close>: a run of white space that follows a mark and is followed by a
  capital letter. \<open>pos\<close> is the index of the next character and \<open>len\<close> the length of
  the whole text; the loop leaves early when \<^verbatim>\<open>match.index + 1 >= text.length\<close>.
\<close>

function sentenceEndingsFrom :: "nat \<Rightarrow> bool \<Rightarrow> nat \<Rightarrow> string \<Rightarrow> nat list" where
  "sentenceEndingsFrom len mark pos [] = []"
| "sentenceEndingsFrom len mark pos (c # cs) =
     (if mark \<and> isSpace c
      then (case dropWhile isSpace cs of
              [] \<Rightarrow> []
            | u # us \<Rightarrow>
                if isUpperAZ u
                then (if pos + 1 \<ge> len then [pos]
                      else pos # sentenceEndingsFrom len False
                                   (pos + 1 + length (takeWhile isSpace cs)) (u # us))
                else sentenceEndingsFrom len False
                       (pos + 1 + length (takeWhile isSpace cs)) (u # us))
      else sentenceEndingsFrom len (isSentenceEnd c) (pos + 1) cs)"
  by pat_completeness auto
termination
  apply (relation "measure (\<lambda>(len, mark, pos, s). length s)")
     apply simp_all
   apply (metis length_dropWhile_le length_Cons Suc_le_eq)+
  done

definition sentenceEndings :: "string \<Rightarrow> nat list" where
  "sentenceEndings text = sentenceEndingsFrom (length text) False 0 text"

text \<open>
  Lines 149-169: three segments cut at the matches one third and two thirds of the way
  through. \<open>speaker\<close> is \<^verbatim>\<open>segment.speaker\<close>.
\<close>

definition splitInThree :: "json \<Rightarrow> string \<Rightarrow> json list option" where
  "splitInThree speaker text =
     (let ends = sentenceEndings text
      in if length ends > 0
         then
           (let firstSpeaker = (if truthy speaker then speaker else JStr ''Speaker 1'');
                secondSpeaker =
                  (if firstSpeaker = JStr ''Interviewer'' then JStr ''Interviewee''
                   else JStr ''Speaker 2'');
                thirdIndex = length ends div 3;
                twoThirdsIndex = (length ends * 2) div 3;
                firstBreakPoint = (if thirdIndex < length ends then ends ! thirdIndex else 0);
                secondBreakPoint =
                  (if twoThirdsIndex < length ends then ends ! twoThirdsIndex
                   else if length ends > 0 then ends ! (length ends - 1) else 0)
            in Some
                 [mkSegment firstSpeaker (JStr (trim (substring text 0 (firstBreakPoint + 1)))),
                  mkSegment secondSpeaker
                    (JStr (trim (substring text (firstBreakPoint + 1) (secondBreakPoint + 1)))),
                  mkSegment firstSpeaker (JStr (trim (substringFrom text (secondBreakPoint + 1))))])
         else None)"

text \<open>
  Lines 106-119: one entry of the reply object read as a segment, kept as the pair of its
  \<^verbatim>\<open>speaker\<close> and \<^verbatim>\<open>text\<close>; \<open>None\<close> is the \<^verbatim>\<open>null\<close> that \<^verbatim>\<open>filter(Boolean)\<close> drops.
\<close>

definition isString :: "json \<Rightarrow> bool" where
  \<comment> \<open>\<^verbatim>\<open>typeof v === 'string'\<close>\<close>
  "isString v = (case v of JStr s \<Rightarrow> True | _ \<Rightarrow> False)"

definition entrySegment :: "(string \<times> json) list \<Rightarrow> string \<times> json \<Rightarrow> (json \<times> json) option" where
  "entrySegment result kv =
     (case kv of (key, val) \<Rightarrow>
        if key = ''speaker'' \<and> map_of result ''text'' \<noteq> None
        then Some (val, the (map_of result ''text''))
        else if includesStr (toLowerCase key) ''speaker'' \<and> isString val
        then Some (JStr key, val)
        else None)"

text \<open>
  Lines 123-174: a lone segment with a long text is cut in three. \<open>Inr None\<close> means
  that control reaches \<^verbatim>\<open>return segments\<close>. A text that is not a string never gets
  past line 165, where \<^verbatim>\<open>text.substring\<close> is not a function and the \<^verbatim>\<open>catch\<close> of line
  170 takes over; but the comparison \<^verbatim>\<open>segment.text.length > 200\<close> of line 126, outside
  that \<^verbatim>\<open>try\<close>, throws when the \<^verbatim>\<open>length\<close> of an object cannot be made a number.
\<close>

definition splitLoneSegment :: "json \<times> json \<Rightarrow> jsexn + json list option" where
  "splitLoneSegment seg =
     (case seg of (speaker, tx) \<Rightarrow>
        (case tx of
           JStr text \<Rightarrow>
             if text \<noteq> [] \<and> length text > 200 then Inr (splitInThree speaker text)
             else Inr None
         | JObj kvs \<Rightarrow>
             (case map_of kvs ''length'' of
                Some w \<Rightarrow> if toPrimitiveThrows w then Inl TypeError else Inr None
              | None \<Rightarrow> Inr None)
         | _ \<Rightarrow> Inr None))"

text \<open>Lines 180-192: two generic speakers, cut near the middle of the transcript.\<close>

definition splitAtMiddle :: "string \<Rightarrow> json list" where
  "splitAtMiddle transcriptText =
     (let midPoint = length transcriptText div 2;
          splitIndex =
            (case indexOf transcriptText ''. '' midPoint of
               None \<Rightarrow> midPoint
             | Some i \<Rightarrow> if i > midPoint + 200 then midPoint else i + 2)
      in [segment ''Speaker 1'' (trim (substring transcriptText 0 splitIndex)),
          segment ''Speaker 2'' (trim (substringFrom transcriptText splitIndex))])"

text \<open>
  Lines 101-192: a reply that is neither an array nor holds one. Only an object is
  read entry by entry (\<^verbatim>\<open>Object.entries(null)\<close> would throw); a number, a string or a
  boolean goes straight to the cut in the middle.
\<close>

definition reinterpret :: "json \<Rightarrow> string \<Rightarrow> jsexn + json list" where
  "reinterpret result transcriptText =
     (case result of
        JObj kvs \<Rightarrow>
          (let segments = List.map_filter (entrySegment kvs) kvs
           in if length segments > 0
              then (case segments of
                      [seg] \<Rightarrow>
                        (case splitLoneSegment seg of
                           Inl x \<Rightarrow> Inl x
                         | Inr (Some three) \<Rightarrow> Inr three
                         | Inr None \<Rightarrow> Inr (map (\<lambda>(sp, tx). mkSegment sp tx) segments))
                    | _ \<Rightarrow> Inr (map (\<lambda>(sp, tx). mkSegment sp tx) segments))
              else Inr (splitAtMiddle transcriptText))
      | JNull \<Rightarrow> Inl TypeError
      | _ \<Rightarrow> Inr (splitAtMiddle transcriptText))"

text \<open>Lines 82-193, the body of the inner \<^verbatim>\<open>try\<close> once the reply is parsed.\<close>

definition recoverSegments :: "string \<Rightarrow> json \<Rightarrow> jsexn + json list" where
  "recoverSegments transcriptText result =
     (case result of
        JArr elems \<Rightarrow>
          (case elems of
             [e] \<Rightarrow>
               (case splitSingleElement e of
                  Inl x \<Rightarrow> Inl x
                | Inr (Some halves) \<Rightarrow> Inr halves
                | Inr None \<Rightarrow> Inr elems)
           | _ \<Rightarrow> Inr elems)
      | _ \<Rightarrow>
          (case getProp result ''segments'' of
             Inl x \<Rightarrow> Inl x
           | Inr (Some (JArr segments)) \<Rightarrow> Inr segments
           | Inr _ \<Rightarrow>
               (case getProp result ''speakers'' of
                  Inl x \<Rightarrow> Inl x
                | Inr (Some (JArr speakers)) \<Rightarrow> Inr speakers
                | Inr _ \<Rightarrow> reinterpret result transcriptText)))"

text \<open>
  What the chat completion gives, as far as the server looks at it: the call is rejected
  or the response has no first choice (\<open>Throws\<close>); the message content is \<^verbatim>\<open>null\<close> or
  the empty string (\<open>NoContent\<close>); \<^verbatim>\<open>JSON.parse(content)\<close> throws (\<open>Unparsable\<close>); or
  \<^verbatim>\<open>JSON.parse(content)\<close> returns a value (\<open>Parsed\<close>).
\<close>

datatype upstream = Throws | NoContent | Unparsable | Parsed json

text \<open>
  Lines 19-243. The inner \<^verbatim>\<open>catch\<close> takes every exception of the inner \<^verbatim>\<open>try\<close>, the
  outer one every other.
\<close>

definition identifySpeakers :: "string \<Rightarrow> upstream \<Rightarrow> jsexn + json list" where
  "identifySpeakers transcriptText reply =
     (case reply of
        Throws \<Rightarrow> Inr [segment ''Unknown'' transcriptText]
      | NoContent \<Rightarrow> Inr [segment ''Unknown'' transcriptText]
      | Unparsable \<Rightarrow> Inr (sentenceFallback transcriptText)
      | Parsed result \<Rightarrow>
          (case recoverSegments transcriptText result of
             Inl parseError \<Rightarrow> Inr (sentenceFallback transcriptText)
           | Inr segments \<Rightarrow> Inr segments))"




section \<open>Summaries (server/summary.ts)\<close>

datatype summary = Summary (keyPoints: json) (topics: json) (actionItems: json)

definition orEmptyList :: "json option \<Rightarrow> json" where
  \<comment> \<open>\<^verbatim>\<open>v || []\<close>, where \<open>None\<close> is \<^verbatim>\<open>undefined\<close>\<close>
  "orEmptyList v = (case v of Some x \<Rightarrow> if truthy x then x else JArr [] | None \<Rightarrow> JArr [])"

text \<open>
  Lines 16-53. \<open>Inl x\<close> stands for the \<^verbatim>\<open>Error\<close> that the \<^verbatim>\<open>catch\<close> clause throws in
  place of the exception \<open>x\<close> it caught. Absent content makes \<^verbatim>\<open>summaryContent\<close> the
  empty object.
\<close>

definition generateSummary :: "upstream \<Rightarrow> jsexn + summary" where
  "generateSummary reply =
     (case (case reply of
              Throws \<Rightarrow> Inl Rejected
            | NoContent \<Rightarrow> Inr (JObj [])
            | Unparsable \<Rightarrow> Inl SyntaxError
            | Parsed v \<Rightarrow> Inr v) of
        Inl x \<Rightarrow> Inl x
      | Inr summaryContent \<Rightarrow>
          (case getProp summaryContent ''keyPoints'' of
             Inl x \<Rightarrow> Inl x
           | Inr kp \<Rightarrow>
               (case getProp summaryContent ''topics'' of
                  Inl x \<Rightarrow> Inl x
                | Inr tp \<Rightarrow>
                    (case getProp summaryContent ''actionItems'' of
                       Inl x \<Rightarrow> Inl x
                     | Inr ai \<Rightarrow>
                         Inr (Summary (orEmptyList kp) (orEmptyList tp) (orEmptyList ai))))))"

section \<open>Files, the transcription client and the routes\<close>

text \<open>
  The scratch directory: the files that exist, each with its size in bytes. The first
  entry of a path counts.
\<close>

type_synonym path = string
type_synonym files = "(path \<times> nat) list"

text \<open>
  An \<^verbatim>\<open>Error\<close> object as the handlers read it: its message, and the \<^verbatim>\<open>response\<close> that
  the service's client attaches (its status, and in its data the service's own error
  message). \<open>None\<close> is an absent (or falsy) property.
\<close>

datatype httpresp = HttpResp (status: "nat option") (errdata: "string option option")
datatype jserr = JsError (message: string) (response: "httpresp option")

definition newError :: "string \<Rightarrow> jserr" where
  "newError msg = JsError msg None"

text \<open>The calls that leave the process.\<close>

datatype call = Ffmpeg path path | Whisper files path

record world =
  files :: files
  calls :: "call list"

text \<open>
  The encoder run by \<^verbatim>\<open>execAsync\<close>: given the files, the input and the output path, it
  tells whether the command succeeded, and leaves the files as it wishes. The speech to
  text service reads a file and answers with a text and maybe a duration, or fails.
\<close>

type_synonym encoder = "files \<Rightarrow> path \<Rightarrow> path \<Rightarrow> bool \<times> files"
type_synonym speechToText = "files \<Rightarrow> path \<Rightarrow> jserr + string \<times> real option"

definition existsSync :: "files \<Rightarrow> path \<Rightarrow> bool" where
  "existsSync fs p \<longleftrightarrow> map_of fs p \<noteq> None"

definition statSize :: "files \<Rightarrow> path \<Rightarrow> jserr + nat" where
  \<comment> \<open>\<^verbatim>\<open>fs.statSync(p).size\<close>\<close>
  "statSize fs p =
     (case map_of fs p of
        None \<Rightarrow> Inl (newError (''ENOENT: no such file or directory, stat '' @ [CHR 0x27] @ p @ [CHR 0x27]))
      | Some n \<Rightarrow> Inr n)"

definition removeFile :: "path \<Rightarrow> files \<Rightarrow> files" where
  "removeFile p fs = filter (\<lambda>e. fst e \<noteq> p) fs"

definition unlinkSync :: "files \<Rightarrow> path \<Rightarrow> jserr + files" where
  "unlinkSync fs p =
     (if existsSync fs p then Inr (removeFile p fs)
      else Inl (newError (''ENOENT: no such file or directory, unlink '' @ [CHR 0x27] @ p @ [CHR 0x27])))"

definition unlink :: "files \<Rightarrow> path \<Rightarrow> files" where
  \<comment> \<open>\<^verbatim>\<open>fs.unlink(p, callback)\<close>: a failure is only logged by the callback\<close>
  "unlink fs p = removeFile p fs"

text \<open>
  \<^verbatim>\<open>path.basename\<close>, \<^verbatim>\<open>path.dirname\<close>, \<^verbatim>\<open>path.normalize\<close> and \<^verbatim>\<open>path.join\<close> of two
  parts, as Node defines them for POSIX paths. \<^verbatim>\<open>basename\<close> drops the trailing slashes
  and keeps what follows the last slash left. \<^verbatim>\<open>dirname\<close> looks for that slash from
  the second character on and keeps what stands before it. \<^verbatim>\<open>normalize\<close> drops empty
  and \<^verbatim>\<open>.\<close> segments and lets a \<^verbatim>\<open>..\<close> segment take away the segment before it.
\<close>

definition isSlash :: "char \<Rightarrow> bool" where
  "isSlash c \<longleftrightarrow> c = CHR ''/''"

definition stripSlashes :: "string \<Rightarrow> string" where
  "stripSlashes s = rev (dropWhile isSlash (rev s))"

definition basename :: "path \<Rightarrow> string" where
  "basename p = rev (takeWhile (\<lambda>c. \<not> isSlash c) (rev (stripSlashes p)))"

definition dirname :: "path \<Rightarrow> path" where
  "dirname p =
     (case p of
        [] \<Rightarrow> ''.''
      | c # rest \<Rightarrow>
          (let t = stripSlashes rest
           in if CHR ''/'' \<in> set t
              then (let front = rev (tl (dropWhile (\<lambda>x. \<not> isSlash x) (rev t)))
                    in if isSlash c \<and> front = [] then ''//'' else c # front)
              else if isSlash c then ''/'' else ''.''))"

fun splitSlash :: "string \<Rightarrow> string \<Rightarrow> string list" where
  "splitSlash seg [] = [rev seg]"
| "splitSlash seg (c # cs) =
     (if isSlash c then rev seg # splitSlash [] cs else splitSlash (c # seg) cs)"

definition normalizeStep :: "bool \<Rightarrow> string list \<Rightarrow> string \<Rightarrow> string list" where
  "normalizeStep allowAboveRoot res seg =
     (if seg = [] \<or> seg = ''.'' then res
      else if seg = ''..''
      then (if res \<noteq> [] \<and> last res \<noteq> ''..'' then butlast res
            else if allowAboveRoot then res @ [''..''] else res)
      else res @ [seg])"

definition normalizeString :: "string \<Rightarrow> bool \<Rightarrow> string" where
  "normalizeString p allowAboveRoot =
     join ''/'' (foldl (normalizeStep allowAboveRoot) [] (splitSlash [] p))"

definition normalizePath :: "path \<Rightarrow> path" where
  "normalizePath p =
     (if p = [] then ''.''
      else (let isAbsolute = isSlash (hd p);
                trailingSeparator = isSlash (last p);
                r = normalizeString p (\<not> isAbsolute)
            in if r = []
               then (if isAbsolute then ''/'' else if trailingSeparator then ''./'' else ''.'')
               else (if isAbsolute then ''/'' else []) @ r @
                    (if trailingSeparator then ''/'' else [])))"

definition pathJoin :: "path \<Rightarrow> string \<Rightarrow> path" where
  "pathJoin dir name =
     normalizePath (if dir = [] then name else if name = [] then dir else dir @ ''/'' @ name)"

subsection \<open>transcribeAudio\<close>

text \<open>
  The \<^verbatim>\<open>catch\<close> clause of \<^verbatim>\<open>transcribeAudio\<close>: the error that it throws for the one it
  caught.
\<close>

definition rethrow :: "jserr \<Rightarrow> jserr" where
  "rethrow error =
     (case response error of
        Some (HttpResp st (Some apiError)) \<Rightarrow>
          newError (case apiError of
                      Some msg \<Rightarrow> if msg \<noteq> [] then msg else ''OpenAI API error''
                    | None \<Rightarrow> ''OpenAI API error'')
      | _ \<Rightarrow> newError (''Failed to transcribe audio: '' @ message error))"

text \<open>The result is the text and \<^verbatim>\<open>transcription.duration || 0\<close>.\<close>

definition transcribeAudio ::
  "speechToText \<Rightarrow> world \<Rightarrow> path \<Rightarrow> (jserr + string \<times> real) \<times> world" where
  "transcribeAudio whisper w audioFilePath =
     (if \<not> existsSync (files w) audioFilePath
      then (Inl (rethrow (newError ''Audio file not found'')), w)
      else (case whisper (files w) audioFilePath of
              Inl error \<Rightarrow>
                (Inl (rethrow error), w\<lparr>calls := calls w @ [Whisper (files w) audioFilePath]\<rparr>)
            | Inr (tx, dur) \<Rightarrow>
                (Inr (tx, case dur of Some d \<Rightarrow> d | None \<Rightarrow> 0),
                 w\<lparr>calls := calls w @ [Whisper (files w) audioFilePath]\<rparr>)))"

subsection \<open>compressAudioFile\<close>

definition outputPathOf :: "path \<Rightarrow> path" where
  "outputPathOf inputPath =
     pathJoin (dirname inputPath) (''compressed-'' @ basename inputPath @ ''.ogg'')"

text \<open>
  Every exception of the body is caught and answered with the input path. The result is
  a sum all the same, so that "no exception escapes" is a statement about the function.
\<close>

definition compressAudioFile :: "encoder \<Rightarrow> world \<Rightarrow> path \<Rightarrow> jserr + path \<times> world" where
  "compressAudioFile ffmpeg w inputPath =
     (let outputPath = outputPathOf inputPath;
          (ok, fs1) = ffmpeg (files w) inputPath outputPath;
          w1 = w\<lparr>files := fs1, calls := calls w @ [Ffmpeg inputPath outputPath]\<rparr>
      in if \<not> ok then Inr (inputPath, w1)
         else if \<not> existsSync fs1 outputPath \<or> statSize fs1 outputPath = Inr 0
         then Inr (inputPath, w1)
         else (case unlinkSync fs1 inputPath of
                 Inl error \<Rightarrow> Inr (inputPath, w1)
               | Inr fs2 \<Rightarrow> Inr (outputPath, w1\<lparr>files := fs2\<rparr>)))"

subsection \<open>The transcribe route\<close>

record transcription =
  transcript :: string
  duration :: real
  filename :: string
  wasCompressed :: "bool option"

datatype reply = Json200 transcription | Failure nat string

text \<open>
  The two \<^verbatim>\<open>catch\<close> clauses of the handler: an error with a response status is answered
  with that status, any other with 500 and its message.
\<close>

definition errorReply :: "jserr \<Rightarrow> reply" where
  "errorReply error =
     (case response error of
        Some (HttpResp (Some st) d) \<Rightarrow>
          if st \<noteq> 0
          then Failure st (case d of
                             Some (Some msg) \<Rightarrow> if msg \<noteq> [] then msg else ''OpenAI API error''
                           | _ \<Rightarrow> ''OpenAI API error'')
          else Failure 500 (if message error \<noteq> [] then message error
                            else ''Failed to transcribe audio'')
      | _ \<Rightarrow> Failure 500 (if message error \<noteq> [] then message error
                          else ''Failed to transcribe audio''))"

text \<open>
  The upload as multer hands it over: no file, or its path in the scratch directory and
  its original name.
\<close>

type_synonym upload = "(path \<times> string) option"

text \<open>server/routes.ts, lines 50-95: the route without compression.\<close>

definition transcribeRoute :: "speechToText \<Rightarrow> world \<Rightarrow> upload \<Rightarrow> reply \<times> world" where
  "transcribeRoute whisper w file =
     (case file of
        None \<Rightarrow> (Failure 400 ''No audio file provided'', w)
      | Some (filePath, originalname) \<Rightarrow>
          (case transcribeAudio whisper w filePath of
             (Inr (tx, dur), w1) \<Rightarrow>
               (Json200 \<lparr>transcript = tx, duration = dur, filename = originalname,
                         wasCompressed = None\<rparr>,
                w1\<lparr>files := unlink (files w1) filePath\<rparr>)
           | (Inl error, w1) \<Rightarrow>
               (errorReply error, w1\<lparr>files := unlink (files w1) filePath\<rparr>)))"

definition maxWhisperFileSize :: nat where
  "maxWhisperFileSize = 25 * 1024 * 1024"

text \<open>
  \<^verbatim>\<open>(n / (1024 * 1024)).toFixed(2)\<close> for a size of \<open>n\<close> bytes. The quotient is exact in
  floating point (the divisor is a power of two), and \<^verbatim>\<open>toFixed\<close> rounds it to the
  nearest hundredth, a tie going up.
\<close>

definition digit :: "nat \<Rightarrow> char" where
  "digit d = ''0123456789'' ! (d mod 10)"

function showNat :: "nat \<Rightarrow> string" where
  "showNat n = (if n < 10 then [digit n] else showNat (n div 10) @ [digit n])"
  by pat_completeness auto
termination
  by (relation "measure id") auto

definition megabytes :: "nat \<Rightarrow> string" where
  "megabytes n =
     (let hundredths = (200 * n + 1048576) div 2097152
      in showNat (hundredths div 100) @ ''.'' @
         [digit (hundredths div 10), digit hundredths])"

definition stillTooLarge :: "nat \<Rightarrow> string" where
  "stillTooLarge newSize =
     ''File still too large after compression ('' @ megabytes newSize @
     ''MB). Try a shorter audio clip.''"

text \<open>
  Lines 152-185 of the route with compression: the body of the \<^verbatim>\<open>try\<close> whose
  \<^verbatim>\<open>finally\<close> cleans up. It gives what the body returns or throws, and the values of
  \<^verbatim>\<open>audioPath\<close> and \<^verbatim>\<open>wasCompressed\<close> when it ends. The service's answer is
  typed (a text, and a duration made a number by \<^verbatim>\<open>|| 0\<close>), so the schema of
  shared/schema.ts accepts the record and \<^verbatim>\<open>transcriptionSchema.parse\<close> returns it.
\<close>

definition transcribeStep ::
  "speechToText \<Rightarrow> world \<Rightarrow> string \<Rightarrow> path \<Rightarrow> bool \<Rightarrow>
   (jserr + transcription) \<times> path \<times> bool \<times> world" where
  "transcribeStep whisper w originalname audioPath compressed =
     (case transcribeAudio whisper w audioPath of
        (Inl error, w1) \<Rightarrow> (Inl error, audioPath, compressed, w1)
      | (Inr (tx, dur), w1) \<Rightarrow>
          (Inr \<lparr>transcript = tx, duration = dur, filename = originalname,
                wasCompressed = Some compressed\<rparr>,
           audioPath, compressed, w1))"

definition compressAndTranscribe ::
  "encoder \<Rightarrow> speechToText \<Rightarrow> world \<Rightarrow> path \<Rightarrow> string \<Rightarrow>
   (jserr + transcription) \<times> path \<times> bool \<times> world" where
  "compressAndTranscribe ffmpeg whisper w filePath originalname =
     (case statSize (files w) filePath of
        Inl error \<Rightarrow> (Inl error, filePath, False, w)
      | Inr fileSize \<Rightarrow>
          if fileSize > maxWhisperFileSize
          then (case compressAudioFile ffmpeg w filePath of
                  Inl error \<Rightarrow> (Inl error, filePath, False, w)
                | Inr (audioPath, w1) \<Rightarrow>
                    (case statSize (files w1) audioPath of
                       Inl error \<Rightarrow> (Inl error, audioPath, audioPath \<noteq> filePath, w1)
                     | Inr newSize \<Rightarrow>
                         if newSize > maxWhisperFileSize
                         then (Inl (newError (stillTooLarge newSize)),
                               audioPath, audioPath \<noteq> filePath, w1)
                         else transcribeStep whisper w1 originalname audioPath
                                (audioPath \<noteq> filePath)))
          else transcribeStep whisper w originalname filePath False)"

text \<open>Lines 186-200: the \<^verbatim>\<open>finally\<close> clause.\<close>

definition cleanUp :: "files \<Rightarrow> path \<Rightarrow> path \<Rightarrow> bool \<Rightarrow> files" where
  "cleanUp fs filePath audioPath compressed =
     (let fs1 = (if existsSync fs audioPath then unlink fs audioPath else fs)
      in if compressed \<and> existsSync fs1 filePath then unlink fs1 filePath else fs1)"

text \<open>Lines 140-215: the route with compression.\<close>

definition transcribeRouteCompress ::
  "encoder \<Rightarrow> speechToText \<Rightarrow> world \<Rightarrow> upload \<Rightarrow> reply \<times> world" where
  "transcribeRouteCompress ffmpeg whisper w file =
     (case file of
        None \<Rightarrow> (Failure 400 ''No audio file provided'', w)
      | Some (filePath, originalname) \<Rightarrow>
          (case compressAndTranscribe ffmpeg whisper w filePath originalname of
             (result, audioPath, compressed, w1) \<Rightarrow>
               ((case result of
                   Inr validated \<Rightarrow> Json200 validated
                 | Inl error \<Rightarrow> errorReply error),
                w1\<lparr>files := cleanUp (files w1) filePath audioPath compressed\<rparr>)))"

text \<open>
  Sample surroundings: an encoder run that ends with the given status and leaves an
  output of the given size (none for \<open>None\<close>) without touching another file, and a
  service that answers every file with the same text.
\<close>

definition encoderRun :: "bool \<Rightarrow> nat option \<Rightarrow> encoder" where
  "encoderRun ok out fs inputPath outputPath =
     (ok, case out of None \<Rightarrow> fs | Some n \<Rightarrow> (outputPath, n) # removeFile outputPath fs)"

definition whisperSays :: "string \<Rightarrow> speechToText" where
  "whisperSays tx fs p = Inr (tx, None)"

section \<open>Properties of the diarizer\<close>






text \<open>The function never lets an exception out: every path ends in a \<^verbatim>\<open>return\<close>.\<close>

lemma identifySpeakers_returns: "\<exists>segments. identifySpeakers transcriptText reply = Inr segments"
  by (cases reply) (auto simp: identifySpeakers_def split: sum.splits)

lemma alternate_nonempty: "alternate segs sp tx prev rest \<noteq> []"
  by (induction rest arbitrary: segs sp tx prev) auto

lemma sentenceFallback_nonempty: "sentenceFallback t \<noteq> []"
  by (auto simp: sentenceFallback_def alternate_nonempty Let_def split: list.splits)

lemma splitInThree_nonempty: "splitInThree sp t = Some xs \<Longrightarrow> xs \<noteq> []"
  by (auto simp: splitInThree_def Let_def split: if_splits)

lemma reinterpret_nonempty: "reinterpret v t = Inr xs \<Longrightarrow> xs \<noteq> []"
  by (auto simp: reinterpret_def splitAtMiddle_def splitLoneSegment_def Let_def
      dest: splitInThree_nonempty
      split: json.splits if_splits list.splits sum.splits option.splits prod.splits)

lemma splitSingleElement_nonempty: "splitSingleElement e = Inr (Some xs) \<Longrightarrow> xs \<noteq> []"
  by (auto simp: splitSingleElement_def Let_def
      split: json.splits if_splits sum.splits option.splits)

text \<open>
  The only replies that give no segment at all are the empty array and an object whose
  \<^verbatim>\<open>segments\<close> or \<^verbatim>\<open>speakers\<close> is the empty array.
\<close>

lemma identifySpeakers_empty_only:
  assumes "identifySpeakers t reply = Inr []"
  shows "reply = Parsed (JArr []) \<or>
         (\<exists>kvs. reply = Parsed (JObj kvs) \<and>
            (map_of kvs ''segments'' = Some (JArr []) \<or> map_of kvs ''speakers'' = Some (JArr [])))"
proof (cases reply)
  case (Parsed v)
  show ?thesis
  proof (cases v)
    case (JArr elems)
    with assms Parsed show ?thesis
      by (auto simp: identifySpeakers_def recoverSegments_def sentenceFallback_nonempty
          dest: splitSingleElement_nonempty
          split: list.splits sum.splits option.splits)
  next
    case (JObj kvs)
    with assms Parsed show ?thesis
      by (auto simp: identifySpeakers_def recoverSegments_def sentenceFallback_nonempty
          dest: reinterpret_nonempty
          split: sum.splits option.splits json.splits)
  qed (use assms Parsed in \<open>auto simp: identifySpeakers_def recoverSegments_def
        sentenceFallback_nonempty dest: reinterpret_nonempty split: sum.splits\<close>)
qed (use assms in \<open>auto simp: identifySpeakers_def sentenceFallback_nonempty\<close>)

text \<open>
  C1. The claim is that every reply gives at least one segment. The reply \<^verbatim>\<open>[]\<close>
  parses to an empty array, which line 96 returns as it is, and the reply
  \<^verbatim>\<open>{"segments": []}\<close> has its empty array returned by line 98: the result has no
  segment.
\<close>

theorem identifySpeakers_empty_array:
  "identifySpeakers ''Hello there. How are you?'' (Parsed (JArr [])) = Inr [] \<and>
   identifySpeakers ''Hello there. How are you?'' (Parsed (JObj [(''segments'', JArr [])])) = Inr []"
  by (simp add: identifySpeakers_def recoverSegments_def)

text \<open>
  C2, as the code has it. When the call raises, or the reply has no content, the result
  is the single segment "Unknown" holding the whole transcript; when the reply does not
  parse and the transcript has at most two sentences, it is a single segment holding the
  whole transcript too, but labelled "Speaker 1".
\<close>

theorem total_failure_one_segment:
  "identifySpeakers transcriptText Throws = Inr [segment ''Unknown'' transcriptText] \<and>
   identifySpeakers transcriptText NoContent = Inr [segment ''Unknown'' transcriptText] \<and>
   (length (splitSentences transcriptText) \<le> 2 \<longrightarrow>
      identifySpeakers transcriptText Unparsable = Inr [segment ''Speaker 1'' transcriptText])"
  by (simp add: identifySpeakers_def sentenceFallback_def)

theorem total_failure_one_segment_witness:
  "length (splitSentences ''Hi there. Bye.'') \<le> 2 \<and>
   identifySpeakers ''Hi there. Bye.'' Unparsable = Inr [segment ''Speaker 1'' ''Hi there. Bye.'']"
proof -
  have h: "length (splitSentences ''Hi there. Bye.'') \<le> 2"
    by (simp add: splitSentences_def trim_def isSpace_def isSentenceEnd_def)
  with total_failure_one_segment [of "''Hi there. Bye.''"] show ?thesis by blast
qed

text \<open>
  C2 as the claim words it fails: an unparsable reply for a transcript of one sentence
  gives a segment that is not labelled "Unknown".
\<close>

theorem unparsable_short_not_unknown:
  "length (splitSentences ''Hi.'') \<le> 2 \<and>
   identifySpeakers ''Hi.'' Unparsable \<noteq> Inr [segment ''Unknown'' ''Hi.'']"
  by (simp add: identifySpeakers_def sentenceFallback_def segment_def mkSegment_def
      splitSentences_def trim_def isSpace_def isSentenceEnd_def)





section \<open>Properties of the summarizer\<close>

text \<open>
  C7, as the code has it. With no content the summary has three empty lists. A reply
  that parses to anything but \<^verbatim>\<open>null\<close> gives a summary in which every field that the
  reply lacks is the empty list.
\<close>

theorem summary_defaults:
  "generateSummary NoContent = Inr (Summary (JArr []) (JArr []) (JArr [])) \<and>
   (v \<noteq> JNull \<longrightarrow>
      (\<exists>s. generateSummary (Parsed v) = Inr s \<and>
           (getProp v ''keyPoints'' = Inr None \<longrightarrow> keyPoints s = JArr []) \<and>
           (getProp v ''topics'' = Inr None \<longrightarrow> topics s = JArr []) \<and>
           (getProp v ''actionItems'' = Inr None \<longrightarrow> actionItems s = JArr [])))"
  by (cases v) (auto simp: generateSummary_def orEmptyList_def)

theorem summary_defaults_witness:
  "generateSummary (Parsed (JObj [(''keyPoints'', JArr [JStr ''a''])])) =
     Inr (Summary (JArr [JStr ''a'']) (JArr []) (JArr []))"
proof -
  have nn: "JObj [(''keyPoints'', JArr [JStr ''a''])] \<noteq> JNull" by simp
  have t: "getProp (JObj [(''keyPoints'', JArr [JStr ''a''])]) ''topics'' = Inr None" by simp
  have a: "getProp (JObj [(''keyPoints'', JArr [JStr ''a''])]) ''actionItems'' = Inr None" by simp
  from summary_defaults [of "JObj [(''keyPoints'', JArr [JStr ''a''])]"] nn t a
  obtain s where s: "generateSummary (Parsed (JObj [(''keyPoints'', JArr [JStr ''a''])])) = Inr s"
    and "topics s = JArr []" and "actionItems s = JArr []"
    by blast
  moreover have "keyPoints s = JArr [JStr ''a'']"
    using s by (auto simp: generateSummary_def orEmptyList_def)
  ultimately show ?thesis by (cases s) simp
qed

text \<open>
  C7 as the claim words it fails for the reply \<^verbatim>\<open>null\<close>: it parses, it has no
  \<^verbatim>\<open>actionItems\<close>, and reading \<^verbatim>\<open>summaryContent.keyPoints\<close> throws, so that the call
  fails instead of returning a summary.
\<close>

theorem null_reply_no_summary:
  "generateSummary (Parsed JNull) = Inl TypeError"
  by (simp add: generateSummary_def)

section \<open>Properties of the transcription client, the compressor and the routes\<close>

text \<open>
  The output path of an upload, and of the same upload reached through a \<^verbatim>\<open>.\<close>
  segment, which \<^verbatim>\<open>path.join\<close> takes away.
\<close>

lemma outputPath_upload:
  "outputPathOf ''/tmp/uploads/1-2.wav'' = ''/tmp/uploads/compressed-1-2.wav.ogg''"
  by (simp add: outputPathOf_def pathJoin_def dirname_def basename_def normalizePath_def
      normalizeString_def normalizeStep_def stripSlashes_def isSlash_def Let_def)

lemma outputPath_dot_segment:
  "outputPathOf ''/tmp/uploads/./1-2.wav'' = ''/tmp/uploads/compressed-1-2.wav.ogg''"
  by (simp add: outputPathOf_def pathJoin_def dirname_def basename_def normalizePath_def
      normalizeString_def normalizeStep_def stripSlashes_def isSlash_def Let_def)

lemma removeFile_gone: "\<not> existsSync (removeFile p fs) p"
  by (auto simp: existsSync_def removeFile_def map_of_eq_None_iff)

lemma statSize_exists: "statSize fs p = Inr n \<Longrightarrow> existsSync fs p"
  by (auto simp: statSize_def existsSync_def split: option.splits)

lemma compressAudioFile_calls:
  "compressAudioFile ffmpeg w inputPath = Inr (p, w1) \<Longrightarrow>
   calls w1 = calls w @ [Ffmpeg inputPath (outputPathOf inputPath)]"
  by (auto simp: compressAudioFile_def Let_def split: prod.splits if_splits sum.splits)

lemma transcribeAudio_files: "files (snd (transcribeAudio whisper w p)) = files w"
  by (auto simp: transcribeAudio_def split: sum.splits prod.splits)

lemma cleanUp_removes_upload:
  "audioPath = filePath \<or> compressed \<Longrightarrow>
   \<not> existsSync (cleanUp fs filePath audioPath compressed) filePath"
  by (auto simp: cleanUp_def unlink_def removeFile_gone Let_def)

text \<open>Both routes remove the uploaded file itself, whatever happens.\<close>

lemma route_removes_upload:
  "\<not> existsSync (files (snd (transcribeRoute whisper w (Some (filePath, originalname))))) filePath"
  using transcribeAudio_files [of whisper w filePath]
  by (auto simp: transcribeRoute_def unlink_def removeFile_gone split: prod.splits sum.splits)

lemma compress_route_removes_upload:
  "\<not> existsSync
      (files (snd (transcribeRouteCompress ffmpeg whisper w (Some (filePath, originalname)))))
      filePath"
proof -
  obtain result audioPath compressed w1 where
    body: "compressAndTranscribe ffmpeg whisper w filePath originalname =
             (result, audioPath, compressed, w1)"
    by (cases "compressAndTranscribe ffmpeg whisper w filePath originalname") auto
  then have "audioPath = filePath \<or> compressed"
    by (auto simp: compressAndTranscribe_def transcribeStep_def
        split: sum.splits prod.splits if_splits)
  then show ?thesis
    using body by (simp add: transcribeRouteCompress_def cleanUp_removes_upload)
qed




text \<open>
  C6. An upload above 25MB whose file after the compression step is still above 25MB is
  answered with the error "File still too large after compression", and the only call
  made is the encoder's: the transcription service is not called. In particular, when
  the encoder fails and leaves the files as they were, this error is all the user sees.
\<close>

theorem still_too_large_fails:
  assumes "statSize (files w) filePath = Inr fileSize"
    and "fileSize > maxWhisperFileSize"
  shows
    "(compressAudioFile ffmpeg w filePath = Inr (audioPath, w1) \<and>
      statSize (files w1) audioPath = Inr newSize \<and> newSize > maxWhisperFileSize \<longrightarrow>
        fst (transcribeRouteCompress ffmpeg whisper w (Some (filePath, originalname))) =
          Failure 500 (stillTooLarge newSize) \<and>
        calls (snd (transcribeRouteCompress ffmpeg whisper w (Some (filePath, originalname)))) =
          calls w @ [Ffmpeg filePath (outputPathOf filePath)]) \<and>
     (ffmpeg (files w) filePath (outputPathOf filePath) = (False, files w) \<longrightarrow>
        fst (transcribeRouteCompress ffmpeg whisper w (Some (filePath, originalname))) =
          Failure 500 (stillTooLarge fileSize) \<and>
        calls (snd (transcribeRouteCompress ffmpeg whisper w (Some (filePath, originalname)))) =
          calls w @ [Ffmpeg filePath (outputPathOf filePath)])"
proof -
  have msg: "\<And>n. errorReply (newError (stillTooLarge n)) = Failure 500 (stillTooLarge n)"
    by (simp add: errorReply_def newError_def stillTooLarge_def)
  have first: "fst (transcribeRouteCompress ffmpeg whisper w (Some (filePath, originalname))) =
                 Failure 500 (stillTooLarge newSize) \<and>
               calls (snd (transcribeRouteCompress ffmpeg whisper w (Some (filePath, originalname)))) =
                 calls w @ [Ffmpeg filePath (outputPathOf filePath)]"
    if c: "compressAudioFile ffmpeg w filePath = Inr (audioPath, w1)"
      and s: "statSize (files w1) audioPath = Inr newSize"
      and n: "newSize > maxWhisperFileSize"
    for audioPath w1 newSize
    using assms c s n compressAudioFile_calls [OF c]
    by (simp add: transcribeRouteCompress_def compressAndTranscribe_def msg)
  have second: "fst (transcribeRouteCompress ffmpeg whisper w (Some (filePath, originalname))) =
                  Failure 500 (stillTooLarge fileSize) \<and>
                calls (snd (transcribeRouteCompress ffmpeg whisper w (Some (filePath, originalname)))) =
                  calls w @ [Ffmpeg filePath (outputPathOf filePath)]"
    if f: "ffmpeg (files w) filePath (outputPathOf filePath) = (False, files w)"
  proof -
    from f have c: "compressAudioFile ffmpeg w filePath =
        Inr (filePath, w\<lparr>files := files w,
               calls := calls w @ [Ffmpeg filePath (outputPathOf filePath)]\<rparr>)"
      by (simp add: compressAudioFile_def)
    have s: "statSize (files (w\<lparr>files := files w,
               calls := calls w @ [Ffmpeg filePath (outputPathOf filePath)]\<rparr>)) filePath =
             Inr fileSize"
      using assms(1) by simp
    show ?thesis by (rule first [OF c s assms(2)])
  qed
  from first second show ?thesis by blast
qed

theorem still_too_large_fails_witness:
  "fst (transcribeRouteCompress (encoderRun True (Some 27000000)) (whisperSays ''hello'')
          \<lparr>files = [(''/tmp/uploads/1-2.wav'', 30000000)], calls = []\<rparr>
          (Some (''/tmp/uploads/1-2.wav'', ''talk.wav''))) =
     Failure 500 ''File still too large after compression (25.75MB). Try a shorter audio clip.'' \<and>
   calls (snd (transcribeRouteCompress (encoderRun True (Some 27000000)) (whisperSays ''hello'')
          \<lparr>files = [(''/tmp/uploads/1-2.wav'', 30000000)], calls = []\<rparr>
          (Some (''/tmp/uploads/1-2.wav'', ''talk.wav'')))) =
     [Ffmpeg ''/tmp/uploads/1-2.wav'' ''/tmp/uploads/compressed-1-2.wav.ogg''] \<and>
   fst (transcribeRouteCompress (encoderRun False None) (whisperSays ''hello'')
          \<lparr>files = [(''/tmp/uploads/1-2.wav'', 30000000)], calls = []\<rparr>
          (Some (''/tmp/uploads/1-2.wav'', ''talk.wav''))) =
     Failure 500 ''File still too large after compression (28.61MB). Try a shorter audio clip.''"
proof -
  let ?w = "\<lparr>files = [(''/tmp/uploads/1-2.wav'', 30000000)], calls = []\<rparr>"
  let ?w1 = "\<lparr>files = [(''/tmp/uploads/compressed-1-2.wav.ogg'', 27000000)],
              calls = [Ffmpeg ''/tmp/uploads/1-2.wav'' ''/tmp/uploads/compressed-1-2.wav.ogg'']\<rparr>"
  have out: "outputPathOf ''/tmp/uploads/1-2.wav'' = ''/tmp/uploads/compressed-1-2.wav.ogg''"
    by (rule outputPath_upload)
  have h1: "statSize (files ?w) ''/tmp/uploads/1-2.wav'' = Inr 30000000"
    by (simp add: statSize_def)
  have h2: "(30000000::nat) > maxWhisperFileSize"
    by (simp add: maxWhisperFileSize_def)
  have c: "compressAudioFile (encoderRun True (Some 27000000)) ?w ''/tmp/uploads/1-2.wav'' =
             Inr (''/tmp/uploads/compressed-1-2.wav.ogg'', ?w1)"
    by (simp add: compressAudioFile_def encoderRun_def out existsSync_def statSize_def
        unlinkSync_def removeFile_def Let_def)
  have s: "statSize (files ?w1) ''/tmp/uploads/compressed-1-2.wav.ogg'' = Inr 27000000"
    by (simp add: statSize_def)
  have n: "(27000000::nat) > maxWhisperFileSize"
    by (simp add: maxWhisperFileSize_def)
  have f: "encoderRun False None (files ?w) ''/tmp/uploads/1-2.wav''
             (outputPathOf ''/tmp/uploads/1-2.wav'') = (False, files ?w)"
    by (simp add: encoderRun_def)
  have m1: "stillTooLarge 27000000 =
              ''File still too large after compression (25.75MB). Try a shorter audio clip.''"
    by (simp add: stillTooLarge_def megabytes_def digit_def)
  have m2: "stillTooLarge 30000000 =
              ''File still too large after compression (28.61MB). Try a shorter audio clip.''"
    by (simp add: stillTooLarge_def megabytes_def digit_def)
  from still_too_large_fails
         [OF h1 h2, of "encoderRun True (Some 27000000)" "''/tmp/uploads/compressed-1-2.wav.ogg''"
            ?w1 27000000 "whisperSays ''hello''" "''talk.wav''"]
       c s n
  have first:
    "fst (transcribeRouteCompress (encoderRun True (Some 27000000)) (whisperSays ''hello'') ?w
            (Some (''/tmp/uploads/1-2.wav'', ''talk.wav''))) = Failure 500 (stillTooLarge 27000000) \<and>
     calls (snd (transcribeRouteCompress (encoderRun True (Some 27000000)) (whisperSays ''hello'') ?w
            (Some (''/tmp/uploads/1-2.wav'', ''talk.wav'')))) =
       calls ?w @ [Ffmpeg ''/tmp/uploads/1-2.wav'' (outputPathOf ''/tmp/uploads/1-2.wav'')]"
    by blast
  from still_too_large_fails
         [OF h1 h2, of "encoderRun False None" "''x''" ?w 0 "whisperSays ''hello''" "''talk.wav''"] f
  have second:
    "fst (transcribeRouteCompress (encoderRun False None) (whisperSays ''hello'') ?w
            (Some (''/tmp/uploads/1-2.wav'', ''talk.wav''))) = Failure 500 (stillTooLarge 30000000)"
    by blast
  from first second show ?thesis
    by (simp add: m1 m2 out)
qed

text \<open>
  C8. For a path at which no file exists, \<^verbatim>\<open>transcribeAudio\<close> fails with the message
  "Failed to transcribe audio: Audio file not found" and leaves the world as it was: no
  call to the service is made.
\<close>

theorem missing_file_not_found:
  assumes "\<not> existsSync (files w) audioFilePath"
  shows "transcribeAudio whisper w audioFilePath =
           (Inl (newError ''Failed to transcribe audio: Audio file not found''), w)"
  using assms by (simp add: transcribeAudio_def rethrow_def newError_def)

theorem missing_file_not_found_witness:
  "transcribeAudio (whisperSays ''hello'') \<lparr>files = [(''/tmp/uploads/9-9.wav'', 5)], calls = []\<rparr>
     ''/tmp/uploads/1-2.wav'' =
   (Inl (newError ''Failed to transcribe audio: Audio file not found''),
    \<lparr>files = [(''/tmp/uploads/9-9.wav'', 5)], calls = []\<rparr>)"
proof -
  have "\<not> existsSync (files \<lparr>files = [(''/tmp/uploads/9-9.wav'', 5)], calls = []\<rparr>)
            ''/tmp/uploads/1-2.wav''"
    by (simp add: existsSync_def)
  then show ?thesis by (rule missing_file_not_found)
qed

text \<open>
  C9. The claim is that no scratch file of a request is left behind. When the encoder
  fails after it has written some output, the route with compression removes the upload
  and leaves the output file where it is.
\<close>

theorem failed_compression_leaves_output:
  "transcribeRouteCompress (encoderRun False (Some 1000)) (whisperSays ''hello'')
     \<lparr>files = [(''/tmp/uploads/1-2.wav'', 30000000)], calls = []\<rparr>
     (Some (''/tmp/uploads/1-2.wav'', ''talk.wav'')) =
   (Failure 500 ''File still too large after compression (28.61MB). Try a shorter audio clip.'',
    \<lparr>files = [(''/tmp/uploads/compressed-1-2.wav.ogg'', 1000)],
      calls = [Ffmpeg ''/tmp/uploads/1-2.wav'' ''/tmp/uploads/compressed-1-2.wav.ogg'']\<rparr>)"
  by (simp add: transcribeRouteCompress_def compressAndTranscribe_def compressAudioFile_def
      statSize_def maxWhisperFileSize_def encoderRun_def outputPath_upload
      existsSync_def removeFile_def cleanUp_def unlink_def
      errorReply_def newError_def stillTooLarge_def megabytes_def digit_def Let_def)

text \<open>
  C10. An upload of at most 25MB is never compressed: the only call is the one to the
  transcription service, with the files as they were and the path of the upload, and a
  successful answer says \<^verbatim>\<open>wasCompressed: false\<close>.
\<close>

theorem small_upload_not_compressed:
  assumes "statSize (files w) filePath = Inr fileSize"
    and "fileSize \<le> maxWhisperFileSize"
  shows "transcribeRouteCompress ffmpeg whisper w (Some (filePath, originalname)) =
           (case whisper (files w) filePath of
              Inl error \<Rightarrow> errorReply (rethrow error)
            | Inr (tx, dur) \<Rightarrow>
                Json200 \<lparr>transcript = tx, duration = (case dur of Some d \<Rightarrow> d | None \<Rightarrow> 0),
                         filename = originalname, wasCompressed = Some False\<rparr>,
            \<lparr>files = removeFile filePath (files w),
              calls = calls w @ [Whisper (files w) filePath]\<rparr>)"
  using assms statSize_exists [OF assms(1)]
  by (auto simp: transcribeRouteCompress_def compressAndTranscribe_def transcribeStep_def
      transcribeAudio_def cleanUp_def unlink_def split: sum.splits prod.splits)

theorem small_upload_not_compressed_witness:
  "transcribeRouteCompress (encoderRun True (Some 1000)) (whisperSays ''hello'')
     \<lparr>files = [(''/tmp/uploads/1-2.wav'', 3000)], calls = []\<rparr>
     (Some (''/tmp/uploads/1-2.wav'', ''talk.wav'')) =
   (Json200 \<lparr>transcript = ''hello'', duration = 0, filename = ''talk.wav'',
             wasCompressed = Some False\<rparr>,
    \<lparr>files = [], calls = [Whisper [(''/tmp/uploads/1-2.wav'', 3000)] ''/tmp/uploads/1-2.wav'']\<rparr>)"
proof -
  have h1: "statSize (files \<lparr>files = [(''/tmp/uploads/1-2.wav'', 3000)], calls = []\<rparr>)
              ''/tmp/uploads/1-2.wav'' = Inr 3000"
    by (simp add: statSize_def)
  have h2: "(3000::nat) \<le> maxWhisperFileSize"
    by (simp add: maxWhisperFileSize_def)
  from small_upload_not_compressed
         [OF h1 h2, of "encoderRun True (Some 1000)" "whisperSays ''hello''" "''talk.wav''"]
  show ?thesis
    by (simp add: whisperSays_def removeFile_def)
qed

end
